theory Spec2Isabelle
  imports Complex_Main
begin

section \<open>Type I migration: the disc model of \<open>type_I_migration.c\<close>\<close>

text \<open>
  The C type \<open>double\<close> is modelled by \<^typ>\<open>real\<close>: the arithmetic is exact, so
  rounding, overflow and the special values that floating-point arithmetic produces
  (a quotient by zero, a power outside its domain) are not part of the model: at such a
  point the value of the model is not the value of the program. The claims below are
  stated with the hypotheses that keep away from these points, and evaluated at inputs
  that do not meet them.
  The only special value the source names is the literal \<open>INFINITY\<close>, to which
  \<open>tau_e\<close> and \<open>tau_inc\<close> are initialised; it has a constructor of its own.
  \<open>M_PI\<close> is \<^term>\<open>pi\<close>.
\<close>

type_synonym double = real

subsection \<open>The power operator\<close>

text \<open>
  The source writes powers as \<open>x**y\<close>. It is read as \<open>pow(x, y)\<close> of \<open>math.h\<close>:
  an exponent that is a whole number gives the repeated product (so \<open>x**0 = 1\<close> for
  every \<open>x\<close>, and a negative base is allowed), any other exponent gives
  \<open>exp (y * ln x)\<close>, with \<open>0**y = 0\<close>.
\<close>

definition pow :: "double \<Rightarrow> double \<Rightarrow> double" where
  "pow x y = (if y \<in> \<int> then x powi \<lfloor>y\<rfloor> else x powr y)"

subsection \<open>Planet trap (lines 78-94)\<close>

definition rebx_calculate_planet_trap :: "double \<Rightarrow> double \<Rightarrow> double \<Rightarrow> double" where
  "rebx_calculate_planet_trap r h dedge =
     (if r > dedge * (1 + h) then 1
      else if dedge * (1 - h) < r then
        5.5 * cos (((dedge * (1 + h) - r) * 2 * pi) / (4 * h * dedge)) - 4.5
      else - 10)"

subsection \<open>Aspect ratio (lines 100-104)\<close>

definition rebx_calculating_the_aspect_ratio :: "double \<Rightarrow> double \<Rightarrow> double" where
  "rebx_calculating_the_aspect_ratio r beta = 0.02 * (pow 3 (- beta)) * (pow r beta)"

subsection \<open>Wave timescale (lines 122-129)\<close>

text \<open>
  The function reads \<open>sim->G\<close>, but \<open>sim\<close> is not among its parameters: the
  gravitational constant is passed as the first argument of the model.
\<close>

definition rebx_calculating_damping_timescale ::
  "double \<Rightarrow> double \<Rightarrow> double \<Rightarrow> double \<Rightarrow> double \<Rightarrow> double \<Rightarrow> double \<Rightarrow> double \<Rightarrow> double" where
  "rebx_calculating_damping_timescale G mp ms sma r sd0 alpha ar =
     (let sd = sd0 * (pow r (- alpha));
          t_wave = ((pow ms 2) / (mp * sd * pow sma 2)) * (pow ar 4) * (1 / sqrt ((G * ms) / sma))
      in t_wave)"

subsection \<open>Eccentricity damping timescale (lines 132-136)\<close>

definition rebx_calculating_eccentricity_damping_timescale ::
  "double \<Rightarrow> double \<Rightarrow> double \<Rightarrow> double \<Rightarrow> double \<Rightarrow> double \<Rightarrow> double \<Rightarrow> double \<Rightarrow> double \<Rightarrow> double" where
  "rebx_calculating_eccentricity_damping_timescale G mp ms sma r sd0 alpha ar ecc =
     (rebx_calculating_damping_timescale G mp ms sma r sd0 alpha ar / 0.780)
       * (1 - 0.14 * (pow (ecc / ar) 2) + 0.06 * (pow (ecc / ar) 3))"

subsection \<open>Semimajor-axis damping timescale (lines 138-151)\<close>

text \<open>
  The torque-reversal factor is written twice in the source: as the function
  \<open>rebx_calculating_Pe_factor\<close> (lines 139-142, inside a comment) and inline, with the
  same expression, in \<open>reb_calculating_semi_major_axis_damping_timescale\<close> (line 148).
\<close>

definition rebx_calculating_Pe_factor :: "double \<Rightarrow> double \<Rightarrow> double" where
  "rebx_calculating_Pe_factor ar ecc =
     (1 + pow (ecc / (2.25 * ar)) 1.2 + pow (ecc / (2.84 * ar)) 6)
       / (1 - pow (ecc / (2.02 * ar)) 4)"

text \<open>
  Line 149 passes \<open>ecc\<close> as an eighth argument to
  \<open>rebx_calculating_damping_timescale\<close>, which has seven parameters and does not use
  the eccentricity: the model passes the seven.
\<close>

definition reb_calculating_semi_major_axis_damping_timescale ::
  "double \<Rightarrow> double \<Rightarrow> double \<Rightarrow> double \<Rightarrow> double \<Rightarrow> double \<Rightarrow> double \<Rightarrow> double \<Rightarrow> double \<Rightarrow> double" where
  "reb_calculating_semi_major_axis_damping_timescale G mp ms sma r sd0 alpha ar ecc =
     (let Pe = (1 + pow (ecc / (2.25 * ar)) 1.2 + pow (ecc / (2.84 * ar)) 6)
                 / (1 - pow (ecc / (2.02 * ar)) 4);
          t_a = ((2 * rebx_calculating_damping_timescale G mp ms sma r sd0 alpha ar)
                   / (2.7 + 1.1 * alpha)) * (pow ar 2) * Pe
      in t_a)"

subsection \<open>The formula of the specification for the wave timescale\<close>

text \<open>
  This definition follows the words of the specification (section 4.2), not the source:
  \<open>t_wave = (mStar/mPlanet) * (mStar / (sigma(r) * a^2)) * Hr^4 * sqrt(a^3 / (G*mStar))\<close>
  with \<open>sigma(r) = sigma0 * r^(-alpha)\<close>. It is compared with
  \<^const>\<open>rebx_calculating_damping_timescale\<close> below.
\<close>

definition waveTimescale_spec ::
  "real \<Rightarrow> real \<Rightarrow> real \<Rightarrow> real \<Rightarrow> real \<Rightarrow> real \<Rightarrow> real \<Rightarrow> real \<Rightarrow> real" where
  "waveTimescale_spec G mPlanet mStar a r sigma0 alpha Hr =
     (mStar / mPlanet) * (mStar / (sigma0 * r powr (- alpha) * a ^ 2)) * Hr ^ 4
       * sqrt (a ^ 3 / (G * mStar))"

subsection \<open>Data of the host simulation\<close>

record reb_vec3d =
  vec_x :: double
  vec_y :: double
  vec_z :: double

text \<open>A parameter list (\<open>p->ap\<close>, \<open>force->ap\<close>) maps parameter names to values.\<close>

type_synonym rebx_param_list = "string \<rightharpoonup> double"

record reb_particle =
  p_x :: double
  p_y :: double
  p_z :: double
  p_vx :: double
  p_vy :: double
  p_vz :: double
  p_m :: double
  p_ap :: rebx_param_list

record reb_orbit =
  o_a :: double
  o_e :: double
  o_inc :: double

record reb_simulation =
  sim_G :: double

record rebx_force =
  force_ap :: rebx_param_list

text \<open>
  Modelled from the spec: \<open>rebx_get_param\<close> is declared in \<open>reboundx.h\<close>, which is not
  among the sources. Section 6 of the specification gives its contract:
  \<open>get(scope, key) -> optional(double)\<close>, returning absent if unset. The null
  pointer is \<^term>\<open>None\<close>.
\<close>

definition rebx_get_param :: "rebx_param_list \<Rightarrow> string \<Rightarrow> double option" where
  "rebx_get_param ap name = ap name"

subsection \<open>Failure, and the value \<open>INFINITY\<close>\<close>

text \<open>
  The function has one way to fail: it dereferences a parameter pointer that
  \<open>rebx_get_param\<close> returned as null. The source defines no error value of its own.
\<close>

datatype error = NullDereference

definition deref :: "double option \<Rightarrow> error + double" where
  "deref ptr = (case ptr of None \<Rightarrow> Inl NullDereference | Some v \<Rightarrow> Inr v)"

definition and_then :: "error + 'a \<Rightarrow> ('a \<Rightarrow> error + 'b) \<Rightarrow> error + 'b" where
  "and_then m f = (case m of Inl e \<Rightarrow> Inl e | Inr v \<Rightarrow> f v)"

text \<open>
  \<open>tau_e\<close> and \<open>tau_inc\<close> hold either a real number or the literal \<open>INFINITY\<close>.
  The three operations the source applies to them: the test \<open>tau < INFINITY\<close>, the
  quotient \<open>x / tau\<close> (zero when \<open>tau\<close> is \<open>INFINITY\<close>) and the product
  \<open>c * tau\<close> of line 202, where \<open>c = sqrt(r2)**2\<close> is not negative (the product
  \<open>0 * INFINITY\<close>, which the C evaluates to NaN, is outside the model).
\<close>

datatype xdouble = Finite double | INFINITY

fun lt_INFINITY :: "xdouble \<Rightarrow> bool" where
  "lt_INFINITY (Finite t) = True"
| "lt_INFINITY INFINITY = False"

fun div_by :: "double \<Rightarrow> xdouble \<Rightarrow> double" where
  "div_by x (Finite t) = x / t"
| "div_by x INFINITY = 0"

fun times_x :: "double \<Rightarrow> xdouble \<Rightarrow> xdouble" where
  "times_x c (Finite t) = Finite (c * t)"
| "times_x c INFINITY = INFINITY"

subsection \<open>The per-particle force (lines 153-214)\<close>

text \<open>
  Line 187, the right-hand side: the planet-trap factor over the disc-derived
  \<open>t_a\<close>. It dereferences \<open>h\<close>, \<open>dedge\<close>, \<open>sd0\<close>, \<open>alpha\<close> and \<open>beta\<close>.
\<close>

definition disc_invtau_a ::
  "double \<Rightarrow> double option \<Rightarrow> double option \<Rightarrow> double option \<Rightarrow> double option \<Rightarrow> double option
     \<Rightarrow> double \<Rightarrow> double \<Rightarrow> double \<Rightarrow> double \<Rightarrow> double \<Rightarrow> error + double" where
  "disc_invtau_a G h dedge beta alpha sd0 mp ms a0 r2 e0 =
     and_then (deref h) (\<lambda>h'.
     and_then (deref dedge) (\<lambda>dedge'.
     and_then (deref sd0) (\<lambda>sd0'.
     and_then (deref alpha) (\<lambda>alpha'.
     and_then (deref beta) (\<lambda>beta'.
       Inr (rebx_calculate_planet_trap a0 h' dedge'
              / (reb_calculating_semi_major_axis_damping_timescale G mp ms a0 (sqrt r2) sd0' alpha'
                   (rebx_calculating_the_aspect_ratio (sqrt r2) beta') e0)))))))"

text \<open>
  Line 190, the right-hand side: the disc-derived \<open>t_e\<close>. It dereferences \<open>sd0\<close>,
  \<open>alpha\<close> and \<open>beta\<close>.
\<close>

definition disc_tau_e ::
  "double \<Rightarrow> double option \<Rightarrow> double option \<Rightarrow> double option
     \<Rightarrow> double \<Rightarrow> double \<Rightarrow> double \<Rightarrow> double \<Rightarrow> double \<Rightarrow> error + double" where
  "disc_tau_e G beta alpha sd0 mp ms a0 r2 e0 =
     and_then (deref sd0) (\<lambda>sd0'.
     and_then (deref alpha) (\<lambda>alpha'.
     and_then (deref beta) (\<lambda>beta'.
       Inr (rebx_calculating_eccentricity_damping_timescale G mp ms a0 (sqrt r2) sd0' alpha'
              (rebx_calculating_the_aspect_ratio (sqrt r2) beta') e0))))"

text \<open>
  Lines 206-212: the block that adds the eccentricity and inclination term to \<open>a\<close>.
\<close>

definition ecc_inc_block ::
  "xdouble \<Rightarrow> xdouble \<Rightarrow> double \<Rightarrow> double \<Rightarrow> double \<Rightarrow> double \<Rightarrow> double \<Rightarrow> double \<Rightarrow> double
     \<Rightarrow> reb_vec3d \<Rightarrow> reb_vec3d" where
  "ecc_inc_block tau_e tau_inc dx dy dz dvx dvy dvz r2 a =
     (if lt_INFINITY tau_e \<or> lt_INFINITY tau_inc then
        (let vdotr = dx * dvx + dy * dvy + dz * dvz;
             prefac = div_by (2 * vdotr / r2) tau_e
         in a\<lparr>vec_x := vec_x a + prefac * dx,
              vec_y := vec_y a + prefac * dy,
              vec_z := vec_z a + (prefac * dz + div_by (2 * dvz) tau_inc)\<rparr>)
      else a)"

text \<open>The local variables of the function when it reaches \<open>return\<close>.\<close>

record locals =
  l_invtau_a :: double
  l_tau_e :: xdouble
  l_tau_inc :: xdouble
  l_am :: reb_vec3d
  l_aa :: reb_vec3d
  l_ae :: reb_vec3d
  l_a :: reb_vec3d

text \<open>
  The body uses identifiers that the file does not declare. They are read as follows.
  \<^item> \<open>primary\<close> (line 171) and the function \<open>reb_tools_particle_to_orbit_err\<close> belong to
    the host: the orbit \<open>o\<close> that the call returns is an argument of the model.
  \<^item> \<open>ms\<close> (lines 187, 190), the stellar mass, and \<open>r\<close> (lines 202-204) are arguments
    of the model.
  \<^item> \<open>t_e\<close> in the test \<open>t_e != NULL\<close> (line 189) is compared with a null pointer;
    the only pointer of the function that concerns the eccentricity is \<open>tau_e_ptr\<close>,
    and the test is read as \<open>tau_e_ptr != NULL\<close>.
  \<^item> \<open>force-Zap\<close> (line 166) is read as \<open>force->ap\<close>.
  \<^item> \<open>aa\<close>, \<open>ae\<close> and \<open>a\<close> are used like the declared vector \<open>am\<close> and are
    modelled as locals of the function. \<open>a\<close> is never initialised: its value before
    line 206 is the argument \<open>a_in\<close> of the model. (Were the three declared at file
    scope instead, \<open>a_in\<close> would be the content of the shared \<open>a\<close> before the
    call, and the assignments of lines 198-211 would change shared objects.)
\<close>

definition type_I_migration_locals ::
  "reb_simulation \<Rightarrow> rebx_force \<Rightarrow> reb_particle \<Rightarrow> reb_particle
     \<Rightarrow> reb_orbit \<Rightarrow> double \<Rightarrow> double \<Rightarrow> reb_vec3d \<Rightarrow> error + locals" where
  "type_I_migration_locals sim force p source o' ms r a_in =
     (let invtau_a = 0;
          tau_e = INFINITY;
          tau_inc = INFINITY;
          tau_a_ptr = rebx_get_param (p_ap p) ''tau_a'';
          tau_e_ptr = rebx_get_param (p_ap p) ''tau_e'';
          tau_inc_ptr = rebx_get_param (p_ap p) ''tau_inc'';
          dedge = rebx_get_param (force_ap force) ''inner_disc_edge'';
          h = rebx_get_param (force_ap force) ''disc_edge_width'';
          beta = rebx_get_param (force_ap force) ''beta'';
          alpha = rebx_get_param (force_ap force) ''alpha'';
          sd0 = rebx_get_param (force_ap force) ''initial_disc_surface_density'';
          a0 = o_a o';
          e0 = o_e o';
          inc0 = o_inc o';
          mp = p_m p;
          dvx = p_vx p - p_vx source;
          dvy = p_vy p - p_vy source;
          dvz = p_vz p - p_vz source;
          dx = p_x p - p_x source;
          dy = p_y p - p_y source;
          dz = p_z p - p_z source;
          r2 = dx * dx + dy * dy + dz * dz
      in
      and_then (if tau_a_ptr \<noteq> None
                then disc_invtau_a (sim_G sim) h dedge beta alpha sd0 mp ms a0 r2 e0
                else Inr invtau_a) (\<lambda>invtau_a.
      and_then (if tau_e_ptr \<noteq> None
                then and_then (disc_tau_e (sim_G sim) beta alpha sd0 mp ms a0 r2 e0)
                       (\<lambda>t. Inr (Finite t))
                else Inr tau_e) (\<lambda>tau_e.
      (let tau_inc = (case tau_inc_ptr of Some v \<Rightarrow> Finite v | None \<Rightarrow> tau_inc);
           am = \<lparr>vec_x = 0, vec_y = 0, vec_z = 0\<rparr>;
           aa = \<lparr>vec_x = - dvx * invtau_a, vec_y = - dvy * invtau_a, vec_z = - dvz * invtau_a\<rparr>;
           ae = \<lparr>vec_x = div_by (- 2 * (dvx * sqrt r) * sqrt r) (times_x (pow (sqrt r2) 2) tau_e),
                 vec_y = div_by (- 2 * (dvy * sqrt r) * sqrt r) (times_x (pow (sqrt r2) 2) tau_e),
                 vec_z = div_by (- 2 * (dvz * sqrt r) * sqrt r) (times_x (pow (sqrt r2) 2) tau_e)\<rparr>;
           a = ecc_inc_block tau_e tau_inc dx dy dz dvx dvy dvz r2 a_in
       in Inr \<lparr>l_invtau_a = invtau_a, l_tau_e = tau_e, l_tau_inc = tau_inc,
                l_am = am, l_aa = aa, l_ae = ae, l_a = a\<rparr>))))"

text \<open>
  The function receives \<open>sim\<close>, \<open>force\<close>, \<open>p\<close> and \<open>source\<close> by pointer. The
  objects they point to are the memory the call could change; the model returns that
  memory next to the result. The body has no assignment through any of the four pointers.
\<close>

record memory =
  mem_sim :: reb_simulation
  mem_force :: rebx_force
  mem_p :: reb_particle
  mem_source :: reb_particle

definition rebx_calculate_modify_orbits_with_type_I_migration ::
  "memory \<Rightarrow> reb_orbit \<Rightarrow> double \<Rightarrow> double \<Rightarrow> reb_vec3d \<Rightarrow> (error + reb_vec3d) \<times> memory" where
  "rebx_calculate_modify_orbits_with_type_I_migration mem o' ms r a_in =
     (case type_I_migration_locals (mem_sim mem) (mem_force mem) (mem_p mem) (mem_source mem)
             o' ms r a_in of
        Inl e \<Rightarrow> (Inl e, mem)
      | Inr l \<Rightarrow> (Inr (l_a l), mem))"

subsection \<open>A concrete configuration\<close>

text \<open>
  The scenario of section 8 of the specification: \<open>h = 0.05\<close>, \<open>r_edge = 1\<close>,
  \<open>beta = 0\<close>, \<open>alpha = 1\<close>, \<open>sigma0 = 1e-3\<close>, \<open>mPlanet = 1e-5\<close>, \<open>mStar = 1\<close>,
  \<open>G = 1\<close>, on a circular orbit of radius 1 around a star at rest at the origin.
\<close>

definition scenario_force :: rebx_force where
  "scenario_force = \<lparr>force_ap = [''inner_disc_edge'' \<mapsto> 1, ''disc_edge_width'' \<mapsto> 0.05,
     ''beta'' \<mapsto> 0, ''alpha'' \<mapsto> 1, ''initial_disc_surface_density'' \<mapsto> 0.001]\<rparr>"

definition scenario_star :: reb_particle where
  "scenario_star = \<lparr>p_x = 0, p_y = 0, p_z = 0, p_vx = 0, p_vy = 0, p_vz = 0, p_m = 1,
     p_ap = Map.empty\<rparr>"

definition scenario_planet :: "rebx_param_list \<Rightarrow> reb_particle" where
  "scenario_planet ap = \<lparr>p_x = 1, p_y = 0, p_z = 0, p_vx = 0, p_vy = 1, p_vz = 0, p_m = 0.00001,
     p_ap = ap\<rparr>"

definition scenario_memory :: "rebx_param_list \<Rightarrow> rebx_param_list \<Rightarrow> memory" where
  "scenario_memory fap pap = \<lparr>mem_sim = \<lparr>sim_G = 1\<rparr>, mem_force = \<lparr>force_ap = fap\<rparr>,
     mem_p = scenario_planet pap, mem_source = scenario_star\<rparr>"

definition zero_vec :: reb_vec3d where
  "zero_vec = \<lparr>vec_x = 0, vec_y = 0, vec_z = 0\<rparr>"

section \<open>Properties\<close>

subsection \<open>The power operator on the arguments the source gives it\<close>

lemma pow_zero_exp: "pow x 0 = 1"
  by (simp add: pow_def)

lemma pow_numeral: "pow x (numeral n) = x ^ numeral n"
  by (simp add: pow_def)

lemma pow_pos: "0 < x \<Longrightarrow> pow x y = x powr y"
  by (auto simp: pow_def powr_real_of_int' elim!: Ints_cases)

lemma pow_one_base: "pow 1 y = 1"
  by (simp add: pow_pos)

lemma pow_zero_frac: "pow 0 (6 / 5) = 0"
  by (simp add: pow_def)

lemmas pow_eval = pow_zero_exp pow_numeral pow_one_base pow_zero_frac power_divide

lemmas model_defs =
  rebx_calculating_the_aspect_ratio_def rebx_calculating_damping_timescale_def
  reb_calculating_semi_major_axis_damping_timescale_def
  rebx_calculating_eccentricity_damping_timescale_def rebx_calculate_planet_trap_def

lemmas eval_defs =
  type_I_migration_locals_def disc_invtau_a_def disc_tau_e_def and_then_def deref_def
  rebx_get_param_def ecc_inc_block_def Let_def scenario_memory_def scenario_planet_def
  scenario_star_def scenario_force_def zero_vec_def

subsection \<open>Aspect ratio\<close>

text \<open>
  Claim C8. For every \<open>r > 0\<close> the aspect ratio at \<open>beta = 0\<close> is exactly \<open>0.02\<close>:
  the power law \<open>Hr = 0.02 * 3^(-beta) * r^beta\<close>, which the function computes for
  every \<open>beta\<close>, reduces to the constant \<open>0.02\<close> at \<open>beta = 0\<close>, whatever \<open>r\<close> is.
\<close>

theorem C8_aspect_ratio_beta_zero:
  "0 < r \<Longrightarrow>
     rebx_calculating_the_aspect_ratio r 0 = 0.02
   \<and> rebx_calculating_the_aspect_ratio r beta = 0.02 * 3 powr (- beta) * r powr beta"
  by (simp add: rebx_calculating_the_aspect_ratio_def pow_zero_exp pow_pos)

theorem C8_aspect_ratio_beta_zero_witness:
  "(0::real) < 7
   \<and> rebx_calculating_the_aspect_ratio 7 0 = 0.02
   \<and> rebx_calculating_the_aspect_ratio 7 (1 / 2) = 0.02 * 3 powr (- (1 / 2)) * 7 powr (1 / 2)"
  using C8_aspect_ratio_beta_zero [of 7 "1 / 2"] by simp

subsection \<open>Planet trap\<close>

lemma trap_arg:
  "((dedge * (1 + h) - r) * 2 * pi) / (4 * h * dedge)
     = pi * (dedge * (1 + h) - r) / (2 * h * dedge)"
proof -
  have n: "(dedge * (1 + h) - r) * 2 * pi = 2 * (pi * (dedge * (1 + h) - r))"
    by simp
  have d: "4 * h * dedge = 2 * (2 * h * dedge)"
    by simp
  show ?thesis
    unfolding n d by (rule mult_divide_mult_cancel_left) simp
qed

lemma trap_outer:
  assumes "0 < h" "0 < dedge" "r \<ge> dedge * (1 + h)"
  shows "rebx_calculate_planet_trap r h dedge = 1"
proof (cases "r > dedge * (1 + h)")
  case True
  then show ?thesis
    by (simp add: rebx_calculate_planet_trap_def)
next
  case False
  then have r: "r = dedge * (1 + h)"
    using assms(3) by simp
  have "dedge * (1 - h) < dedge * (1 + h)"
    using assms by simp
  then show ?thesis
    unfolding r rebx_calculate_planet_trap_def by simp
qed

lemma trap_mid:
  "dedge * (1 - h) < r \<Longrightarrow> r < dedge * (1 + h) \<Longrightarrow>
     rebx_calculate_planet_trap r h dedge
       = 5.5 * cos (pi * (dedge * (1 + h) - r) / (2 * h * dedge)) - 4.5"
  unfolding rebx_calculate_planet_trap_def trap_arg by simp

lemma trap_inner:
  assumes "r \<le> dedge * (1 - h)" "0 < h" "0 < dedge"
  shows "rebx_calculate_planet_trap r h dedge = - 10"
proof -
  have "dedge * (1 - h) < dedge * (1 + h)"
    using assms by simp
  then have "\<not> r > dedge * (1 + h)" "\<not> dedge * (1 - h) < r"
    using assms(1) by linarith+
  then show ?thesis
    unfolding rebx_calculate_planet_trap_def by (simp only: if_False)
qed

lemma branch_outer:
  "5.5 * cos (pi * (dedge * (1 + h) - dedge * (1 + h)) / (2 * h * dedge)) - 4.5 = (1::real)"
  by simp

lemma branch_inner:
  assumes "0 < h" "0 < dedge"
  shows "5.5 * cos (pi * (dedge * (1 + h) - dedge * (1 - h)) / (2 * h * dedge)) - 4.5
           = (- 10::real)"
proof -
  have "pi * (dedge * (1 + h) - dedge * (1 - h)) / (2 * h * dedge) = pi"
    using assms by (simp add: field_simps)
  then have "cos (pi * (dedge * (1 + h) - dedge * (1 - h)) / (2 * h * dedge)) = - 1"
    by (simp only: cos_pi)
  then show ?thesis
    by simp
qed

lemma trap_edge:
  assumes "0 < h" "0 < dedge"
  shows "rebx_calculate_planet_trap dedge h dedge = - 4.5"
proof -
  have "pi * (dedge * (1 + h) - dedge) / (2 * h * dedge) = pi / 2"
    using assms by (simp add: field_simps)
  then have c: "cos (pi * (dedge * (1 + h) - dedge) / (2 * h * dedge)) = 0"
    by (simp only: cos_pi_half)
  have "dedge * (1 - h) < dedge" "dedge < dedge * (1 + h)"
    using assms by simp_all
  then have "rebx_calculate_planet_trap dedge h dedge = 5.5 * 0 - 4.5"
    by (simp only: trap_mid c)
  then show ?thesis
    by simp
qed

text \<open>
  The factor is a continuous function of the radius: on each side of a boundary the
  two neighbouring pieces are continuous, and they agree at the boundary.
\<close>

lemma trap_continuous:
  assumes "0 < h" "0 < dedge"
  shows "continuous_on UNIV (\<lambda>r. rebx_calculate_planet_trap r h dedge)"
proof -
  let ?hi = "dedge * (1 + h)" and ?lo = "dedge * (1 - h)"
  let ?g = "\<lambda>r. 5.5 * cos (pi * (dedge * (1 + h) - r) / (2 * h * dedge)) - 4.5 :: real"
  have lohi: "?lo < ?hi"
    using assms by simp
  have eq: "(\<lambda>r. rebx_calculate_planet_trap r h dedge) =
     (\<lambda>r. if r \<le> ?hi then (if r \<le> ?lo then - 10 else ?g r) else 1)"
    unfolding rebx_calculate_planet_trap_def trap_arg by (auto simp: fun_eq_iff)
  have g: "continuous_on A ?g" for A
    using assms by (intro continuous_intros) auto
  have inner: "continuous_on {..?hi} (\<lambda>r. if r \<le> ?lo then - 10 else ?g r)"
  proof -
    have "continuous_on ({..?lo} \<union> {?lo..?hi}) (\<lambda>r. if r \<le> ?lo then - 10 else ?g r)"
      by (rule continuous_on_If)
         (use branch_inner[OF assms] g in \<open>auto intro: continuous_intros\<close>)
    moreover have "{..?lo} \<union> {?lo..?hi} = {..?hi}"
      using lohi by auto
    ultimately show ?thesis
      by simp
  qed
  have "continuous_on ({..?hi} \<union> {?hi..})
          (\<lambda>r. if r \<le> ?hi then (if r \<le> ?lo then - 10 else ?g r) else 1)"
    by (rule continuous_on_If)
       (use inner lohi branch_outer[of dedge h] in \<open>auto intro: continuous_intros\<close>)
  moreover have "{..?hi} \<union> {?hi..} = (UNIV :: real set)"
    by auto
  ultimately show ?thesis
    unfolding eq by simp
qed

text \<open>
  Claim C4. For \<open>h > 0\<close> and \<open>r_edge > 0\<close> the planet-trap factor is the three-piece
  function: \<open>1\<close> for \<open>r \<ge> r_edge*(1+h)\<close>,
  \<open>5.5*cos(pi*(r_edge*(1+h) - r)/(2*h*r_edge)) - 4.5\<close> for
  \<open>r_edge*(1-h) < r < r_edge*(1+h)\<close>, and \<open>-10\<close> for \<open>r \<le> r_edge*(1-h)\<close>. The
  transition branch evaluates to exactly \<open>1\<close> at the outer boundary and to exactly
  \<open>-10\<close> at the inner one, the factor is continuous in \<open>r\<close>, and at \<open>r = r_edge\<close> it
  is \<open>-4.5\<close>.
\<close>

theorem C4_trap_three_pieces:
  assumes "0 < h" "0 < dedge"
  shows "(r \<ge> dedge * (1 + h) \<longrightarrow> rebx_calculate_planet_trap r h dedge = 1)
       \<and> (dedge * (1 - h) < r \<and> r < dedge * (1 + h) \<longrightarrow>
            rebx_calculate_planet_trap r h dedge
              = 5.5 * cos (pi * (dedge * (1 + h) - r) / (2 * h * dedge)) - 4.5)
       \<and> (r \<le> dedge * (1 - h) \<longrightarrow> rebx_calculate_planet_trap r h dedge = - 10)
       \<and> 5.5 * cos (pi * (dedge * (1 + h) - dedge * (1 + h)) / (2 * h * dedge)) - 4.5 = 1
       \<and> 5.5 * cos (pi * (dedge * (1 + h) - dedge * (1 - h)) / (2 * h * dedge)) - 4.5 = - 10
       \<and> continuous_on UNIV (\<lambda>r. rebx_calculate_planet_trap r h dedge)
       \<and> rebx_calculate_planet_trap dedge h dedge = - 4.5"
  using assms trap_outer[of h dedge r] trap_mid[of dedge h r] trap_inner[of r dedge h]
    branch_outer[of dedge h] branch_inner[of h dedge] trap_continuous[of h dedge]
    trap_edge[of h dedge]
  by blast

theorem C4_trap_three_pieces_witness:
  "(0::real) < 1 / 2 \<and> (0::real) < 2
   \<and> rebx_calculate_planet_trap 5 (1 / 2) 2 = 1
   \<and> rebx_calculate_planet_trap 3 (1 / 2) 2 = 1
   \<and> rebx_calculate_planet_trap (5 / 2) (1 / 2) 2 = 5.5 * cos (pi / 4) - 4.5
   \<and> rebx_calculate_planet_trap 2 (1 / 2) 2 = - 4.5
   \<and> rebx_calculate_planet_trap 1 (1 / 2) 2 = - 10
   \<and> rebx_calculate_planet_trap (1 / 3) (1 / 2) 2 = - 10
   \<and> continuous_on UNIV (\<lambda>r. rebx_calculate_planet_trap r (1 / 2) 2)"
proof -
  have h: "(0::real) < 1 / 2" and d: "(0::real) < 2"
    by simp_all
  show ?thesis
    using C4_trap_three_pieces [OF h d, of 5] C4_trap_three_pieces [OF h d, of 3]
      C4_trap_three_pieces [OF h d, of "5 / 2"] C4_trap_three_pieces [OF h d, of 1]
      C4_trap_three_pieces [OF h d, of "1 / 3"]
    by simp
qed

lemma trap_angle:
  assumes "0 < h" "0 < dedge" "dedge * (1 - h) < r" "r \<le> dedge * (1 + h)"
  shows "0 \<le> ((dedge * (1 + h) - r) * 2 * pi) / (4 * h * dedge)"
    and "((dedge * (1 + h) - r) * 2 * pi) / (4 * h * dedge) < pi"
proof -
  have hd: "0 < h * dedge"
    using assms by simp
  show "0 \<le> ((dedge * (1 + h) - r) * 2 * pi) / (4 * h * dedge)"
    using assms by (simp add: zero_le_divide_iff)
  have "dedge * (1 + h) - r < 2 * h * dedge"
    using assms(3) by (simp add: algebra_simps)
  then have "(dedge * (1 + h) - r) * 2 < 4 * h * dedge"
    by simp
  then have "((dedge * (1 + h) - r) * 2) * pi < (4 * h * dedge) * pi"
    by (simp only: mult_less_cancel_right_pos pi_gt_zero)
  then show "((dedge * (1 + h) - r) * 2 * pi) / (4 * h * dedge) < pi"
    using hd by (simp add: divide_less_eq mult.commute)
qed

lemma trap_range:
  "- 10 \<le> rebx_calculate_planet_trap r h dedge \<and> rebx_calculate_planet_trap r h dedge \<le> 1"
proof -
  define c where "c = cos (((dedge * (1 + h) - r) * 2 * pi) / (4 * h * dedge))"
  have "- 1 \<le> c" "c \<le> 1"
    by (simp_all add: c_def)
  then have "- 10 \<le> 5.5 * c - 4.5 \<and> 5.5 * c - 4.5 \<le> 1"
    by simp
  then show ?thesis
    unfolding rebx_calculate_planet_trap_def c_def by simp
qed

lemma trap_transition_branch:
  "dedge * (1 - h) < r \<Longrightarrow> r \<le> dedge * (1 + h) \<Longrightarrow>
     rebx_calculate_planet_trap r h dedge
       = 5.5 * cos (((dedge * (1 + h) - r) * 2 * pi) / (4 * h * dedge)) - 4.5"
  by (simp add: rebx_calculate_planet_trap_def)

text \<open>
  Claim C10. For every \<open>r\<close> and every \<open>h > 0\<close>, \<open>r_edge > 0\<close> the planet-trap factor
  lies in the closed interval \<open>[-10, 1]\<close>. In particular, where the function takes
  its transition branch \<open>5.5*cos(theta) - 4.5\<close> the angle \<open>theta\<close> lies in \<open>[0, pi)\<close>
  and the value neither exceeds \<open>1\<close> nor falls below \<open>-10\<close>.
\<close>

theorem C10_trap_range:
  assumes "0 < h" "0 < dedge"
  shows "- 10 \<le> rebx_calculate_planet_trap r h dedge
       \<and> rebx_calculate_planet_trap r h dedge \<le> 1
       \<and> (dedge * (1 - h) < r \<and> r \<le> dedge * (1 + h) \<longrightarrow>
            0 \<le> ((dedge * (1 + h) - r) * 2 * pi) / (4 * h * dedge)
          \<and> ((dedge * (1 + h) - r) * 2 * pi) / (4 * h * dedge) < pi
          \<and> rebx_calculate_planet_trap r h dedge
              = 5.5 * cos (((dedge * (1 + h) - r) * 2 * pi) / (4 * h * dedge)) - 4.5)"
  using assms trap_range[of r h dedge] trap_angle[of h dedge r]
    trap_transition_branch[of dedge h r]
  by blast

theorem C10_trap_range_witness:
  "(0::real) < 1 / 2 \<and> (0::real) < 2
   \<and> - 10 \<le> rebx_calculate_planet_trap (5 / 2) (1 / 2) 2
   \<and> rebx_calculate_planet_trap (5 / 2) (1 / 2) 2 \<le> 1
   \<and> 0 \<le> pi / 4 \<and> pi / 4 < pi
   \<and> rebx_calculate_planet_trap (5 / 2) (1 / 2) 2 = 5.5 * cos (pi / 4) - 4.5"
proof -
  have h: "(0::real) < 1 / 2" and d: "(0::real) < 2"
    by simp_all
  show ?thesis
    using C10_trap_range [OF h d, of "5 / 2"] by simp
qed

subsection \<open>Wave timescale\<close>

text \<open>
  What the function computes, for positive arguments: the last factor is
  \<open>sqrt (a / (G*mStar))\<close>, the inverse of the orbital speed \<open>sqrt (G*mStar/a)\<close>.
\<close>

lemma damping_timescale_formula:
  assumes "0 < r"
  shows "rebx_calculating_damping_timescale G mp ms sma r sd0 alpha ar
           = (ms ^ 2 / (mp * (sd0 * r powr (- alpha)) * sma ^ 2)) * ar ^ 4
               * sqrt (sma / (G * ms))"
proof -
  have "1 / sqrt ((G * ms) / sma) = sqrt (sma / (G * ms))"
    by (simp add: real_sqrt_divide)
  then show ?thesis
    using assms
    by (simp add: rebx_calculating_damping_timescale_def pow_numeral pow_pos)
qed

text \<open>
  The formula of the specification has \<open>sqrt (a^3 / (G*mStar))\<close> there, the inverse of
  the angular frequency: for \<open>a > 0\<close> and \<open>r > 0\<close> it is \<open>a\<close> times what the
  function returns.
\<close>

lemma damping_timescale_vs_spec:
  assumes "0 < sma" "0 < r"
  shows "waveTimescale_spec G mp ms sma r sd0 alpha ar
           = sma * rebx_calculating_damping_timescale G mp ms sma r sd0 alpha ar"
proof -
  have "sma ^ 3 / (G * ms) = sma ^ 2 * (sma / (G * ms))"
    by (simp add: power3_eq_cube power2_eq_square)
  then have "sqrt (sma ^ 3 / (G * ms)) = sqrt (sma ^ 2) * sqrt (sma / (G * ms))"
    by (simp only: real_sqrt_mult)
  then have s: "sqrt (sma ^ 3 / (G * ms)) = sma * sqrt (sma / (G * ms))"
    using assms(1) by simp
  have "ms / mp * (ms / (sd0 * r powr (- alpha) * sma ^ 2))
          = ms ^ 2 / (mp * (sd0 * r powr (- alpha)) * sma ^ 2)"
    by (simp add: power2_eq_square)
  then show ?thesis
    unfolding waveTimescale_spec_def damping_timescale_formula[OF assms(2)] s
    by simp
qed

text \<open>
  Claim C2 says that, for positive masses, radii and surface density, the wave timescale
  equals \<open>(mStar/mPlanet) * (mStar / (sigma0 * r^(-alpha) * a^2)) * Hr^4 * sqrt(a^3 / (G*mStar))\<close>,
  with the angular frequency \<open>sqrt(G*mStar/a^3)\<close> taken at the semimajor axis.
  The function does not compute this. At \<open>G = 1\<close>, \<open>mPlanet = 1e-5\<close>, \<open>mStar = 1\<close>,
  \<open>a = 4\<close>, \<open>r = 1\<close>, \<open>sigma0 = 1e-3\<close>, \<open>alpha = 1\<close>, \<open>Hr = 0.02\<close> it returns
  \<open>2\<close>, and the formula of the claim gives \<open>8\<close>.
\<close>

theorem C2_wave_timescale_differs:
  "rebx_calculating_damping_timescale 1 0.00001 1 4 1 0.001 1 0.02 = 2
   \<and> waveTimescale_spec 1 0.00001 1 4 1 0.001 1 0.02 = 8"
proof -
  have "sqrt (4 ^ 3) = (8::real)"
    by (rule real_sqrt_unique) simp_all
  then show ?thesis
    by (simp add: rebx_calculating_damping_timescale_def waveTimescale_spec_def pow_eval
                  real_sqrt_divide)
qed

subsection \<open>Torque-reversal factor\<close>

lemma Pe_numerator_pos: "0 < 1 + pow x (6 / 5) + pow y 6"
proof -
  have "0 \<le> pow x (6 / 5)"
    by (simp add: pow_def)
  moreover have "0 \<le> pow y 6"
  proof -
    have "pow y 6 = (y ^ 3) ^ 2"
      by (simp add: pow_numeral)
    then show ?thesis
      by simp
  qed
  ultimately show ?thesis
    by linarith
qed

lemma Pe_denominator_zero: "0 < Hr \<Longrightarrow> 1 - pow (2.02 * Hr / (2.02 * Hr)) 4 = 0"
  by (simp add: pow_numeral)

lemma Pe_denominator_neg:
  assumes "0 < Hr" "2.02 * Hr < e"
  shows "1 - pow (e / (2.02 * Hr)) 4 < 0"
proof -
  have "1 < e / (2.02 * Hr)"
    using assms by (simp add: field_simps)
  then have "1 < (e / (2.02 * Hr)) ^ 4"
    by simp
  then show ?thesis
    by (simp add: pow_numeral)
qed

lemma Pe_neg: "0 < Hr \<Longrightarrow> 2.02 * Hr < e \<Longrightarrow> rebx_calculating_Pe_factor Hr e < 0"
  unfolding rebx_calculating_Pe_factor_def
  using Pe_numerator_pos[of "e / (2.25 * Hr)" "e / (2.84 * Hr)"] Pe_denominator_neg[of Hr e]
  by (simp add: divide_pos_neg)

lemma t_a_unfold:
  "reb_calculating_semi_major_axis_damping_timescale G mp ms sma r sd0 alpha ar ecc =
     ((2 * rebx_calculating_damping_timescale G mp ms sma r sd0 alpha ar) / (2.7 + 1.1 * alpha))
       * (pow ar 2) * rebx_calculating_Pe_factor ar ecc"
  by (simp add: reb_calculating_semi_major_axis_damping_timescale_def
                rebx_calculating_Pe_factor_def)

text \<open>
  Claim C5 says that for every aspect ratio \<open>Hr > 0\<close> the evaluation of the
  torque-reversal factor at \<open>e = 2.02*Hr\<close>, or at any \<open>e\<close> beyond it, fails with a
  domain error instead of returning a value. The code has no such check. With
  \<open>Hr = 0.02\<close> and \<open>e = 0.0808\<close>, twice the singular eccentricity, the per-particle
  function returns a value, and the semimajor-axis timescale it computed on the way is
  a negative number.
\<close>

theorem C5_no_domain_error:
  "2.02 * rebx_calculating_the_aspect_ratio 1 0 \<le> 0.0808
   \<and> \<not> isl (fst (rebx_calculate_modify_orbits_with_type_I_migration
          (scenario_memory (force_ap scenario_force) [''tau_a'' \<mapsto> 1000])
          \<lparr>o_a = 1, o_e = 0.0808, o_inc = 0\<rparr> 1 1 zero_vec))
   \<and> reb_calculating_semi_major_axis_damping_timescale 1 0.00001 1 1 1 0.001 1 0.02 0.0808 < 0"
proof -
  have a: "2.02 * rebx_calculating_the_aspect_ratio 1 0 \<le> 0.0808"
    by (simp add: rebx_calculating_the_aspect_ratio_def pow_zero_exp)
  have b: "\<not> isl (fst (rebx_calculate_modify_orbits_with_type_I_migration
          (scenario_memory (force_ap scenario_force) [''tau_a'' \<mapsto> 1000])
          \<lparr>o_a = 1, o_e = 0.0808, o_inc = 0\<rparr> 1 1 zero_vec))"
    by (simp add: rebx_calculate_modify_orbits_with_type_I_migration_def eval_defs)
  have tw: "rebx_calculating_damping_timescale 1 0.00001 1 1 1 0.001 1 0.02 = 16"
    by (simp add: rebx_calculating_damping_timescale_def pow_eval)
  have "rebx_calculating_Pe_factor 0.02 0.0808 < 0"
    by (rule Pe_neg) simp_all
  then have c: "reb_calculating_semi_major_axis_damping_timescale 1 0.00001 1 1 1 0.001 1 0.02 0.0808 < 0"
    unfolding t_a_unfold tw by (simp add: pow_numeral mult_less_0_iff)
  from a b c show ?thesis
    by blast
qed

text \<open>
  Claim C5, as the code has it. For every \<open>Hr > 0\<close> the denominator
  \<open>1 - (e/(2.02*Hr))^4\<close> of the factor is zero at \<open>e = 2.02*Hr\<close> and negative for
  every \<open>e\<close> beyond it. The code makes no domain check: for \<open>e > 2.02*Hr\<close> the factor
  is a negative number, and the function returns
  \<open>t_a = (2*t_wave/(2.7 + 1.1*alpha)) * Hr^2 * Pe\<close> with it.
\<close>

theorem C5_torque_reversal_beyond_singularity:
  "0 < Hr \<Longrightarrow>
     1 - pow (2.02 * Hr / (2.02 * Hr)) 4 = 0
   \<and> (2.02 * Hr < e \<longrightarrow>
        1 - pow (e / (2.02 * Hr)) 4 < 0
      \<and> rebx_calculating_Pe_factor Hr e < 0
      \<and> reb_calculating_semi_major_axis_damping_timescale G mp ms sma r sd0 alpha Hr e =
          ((2 * rebx_calculating_damping_timescale G mp ms sma r sd0 alpha Hr)
             / (2.7 + 1.1 * alpha)) * (pow Hr 2) * rebx_calculating_Pe_factor Hr e)"
  using Pe_denominator_zero Pe_denominator_neg Pe_neg t_a_unfold by blast

theorem C5_torque_reversal_beyond_singularity_witness:
  "(0::real) < 1 \<and> (2.02::real) * 1 < 4.04
   \<and> 1 - pow (2.02 * 1 / (2.02 * 1)) 4 = 0
   \<and> 1 - pow (4.04 / (2.02 * 1)) 4 = - 15
   \<and> rebx_calculating_Pe_factor 1 4.04 < 0
   \<and> reb_calculating_semi_major_axis_damping_timescale 1 1 1 1 1 1 1 1 4.04 =
       ((2 * rebx_calculating_damping_timescale 1 1 1 1 1 1 1 1) / (2.7 + 1.1 * 1))
         * (pow 1 2) * rebx_calculating_Pe_factor 1 4.04"
proof -
  have h: "(0::real) < 1"
    by simp
  show ?thesis
    using C5_torque_reversal_beyond_singularity [OF h, of "4.04" 1 1 1 1 1 1 1]
    by (simp add: pow_numeral)
qed

subsection \<open>The per-particle force: which timescale is used\<close>

text \<open>
  What lines 186-194 do, in general. When the particle has \<open>tau_a\<close> set, whatever its
  value, \<open>invtau_a\<close> is the disc-derived quotient of line 187; when it has not,
  \<open>invtau_a\<close> stays \<open>0\<close>. Likewise \<open>tau_e\<close> is the disc-derived \<open>t_e\<close> of line 190 when
  the particle has \<open>tau_e\<close> set, and stays \<open>INFINITY\<close> when it has not. Only
  \<open>tau_inc\<close> takes the value of its parameter.
\<close>

lemma locals_invtau_a:
  assumes "type_I_migration_locals sim force p source o' ms r a_in = Inr l"
  shows "Inr (l_invtau_a l) =
     (if rebx_get_param (p_ap p) ''tau_a'' \<noteq> None
      then disc_invtau_a (sim_G sim)
             (rebx_get_param (force_ap force) ''disc_edge_width'')
             (rebx_get_param (force_ap force) ''inner_disc_edge'')
             (rebx_get_param (force_ap force) ''beta'')
             (rebx_get_param (force_ap force) ''alpha'')
             (rebx_get_param (force_ap force) ''initial_disc_surface_density'')
             (p_m p) ms (o_a o')
             ((p_x p - p_x source) * (p_x p - p_x source)
                + (p_y p - p_y source) * (p_y p - p_y source)
                + (p_z p - p_z source) * (p_z p - p_z source))
             (o_e o')
      else Inr 0)"
  using assms
  by (auto simp: type_I_migration_locals_def Let_def and_then_def
           split: if_splits sum.splits)

lemma locals_tau_e:
  assumes "type_I_migration_locals sim force p source o' ms r a_in = Inr l"
  shows "Inr (l_tau_e l) =
     (if rebx_get_param (p_ap p) ''tau_e'' \<noteq> None
      then and_then (disc_tau_e (sim_G sim)
             (rebx_get_param (force_ap force) ''beta'')
             (rebx_get_param (force_ap force) ''alpha'')
             (rebx_get_param (force_ap force) ''initial_disc_surface_density'')
             (p_m p) ms (o_a o')
             ((p_x p - p_x source) * (p_x p - p_x source)
                + (p_y p - p_y source) * (p_y p - p_y source)
                + (p_z p - p_z source) * (p_z p - p_z source))
             (o_e o')) (\<lambda>t. Inr (Finite t))
      else Inr INFINITY)"
  using assms
  by (auto simp: type_I_migration_locals_def Let_def and_then_def
           split: if_splits sum.splits)

lemma locals_tau_inc:
  assumes "type_I_migration_locals sim force p source o' ms r a_in = Inr l"
  shows "l_tau_inc l =
     (case rebx_get_param (p_ap p) ''tau_inc'' of Some v \<Rightarrow> Finite v | None \<Rightarrow> INFINITY)"
  using assms
  by (auto simp: type_I_migration_locals_def Let_def and_then_def
           split: if_splits sum.splits)

text \<open>
  Claim C1 says that for a particle with the \<open>tau_a\<close> parameter present the inverse
  semimajor-axis rate is exactly \<open>1/tau_a\<close>, with neither the disc model nor the trap
  factor invoked, whatever the disc configuration. The code does not do this. For the
  planet of the scenario with \<open>tau_a = 1000\<close> it sets \<open>invtau_a\<close> to the trap factor
  over the disc-derived \<open>t_a\<close>, which is \<open>-21375/16\<close> and not \<open>1/1000\<close>; and with
  no disc parameter set it dereferences a null pointer.
\<close>

theorem C1_tau_a_value_not_used:
  "map_sum id l_invtau_a
     (type_I_migration_locals \<lparr>sim_G = 1\<rparr> scenario_force
        (scenario_planet [''tau_a'' \<mapsto> 1000]) scenario_star
        \<lparr>o_a = 1, o_e = 0, o_inc = 0\<rparr> 1 1 zero_vec) = Inr (- 21375 / 16)
   \<and> type_I_migration_locals \<lparr>sim_G = 1\<rparr> \<lparr>force_ap = Map.empty\<rparr>
        (scenario_planet [''tau_a'' \<mapsto> 1000]) scenario_star
        \<lparr>o_a = 1, o_e = 0, o_inc = 0\<rparr> 1 1 zero_vec = Inl NullDereference"
  by (simp add: eval_defs model_defs pow_eval)

text \<open>
  Claim C3 says that for a particle with the \<open>tau_e\<close> parameter present the value of
  the parameter is the eccentricity-damping timescale, that the disc model is consulted
  only when the parameter is absent, and that \<open>tau_e\<close> is infinite when neither is
  available. The code does not do this. For the planet of the scenario with
  \<open>tau_e = 1000\<close> it sets \<open>tau_e\<close> to the disc-derived \<open>t_e = 800/39\<close>; with
  \<open>tau_e = 1000\<close> and no disc parameter set it dereferences a null pointer; and with
  no \<open>tau_e\<close> parameter, on the configured disc, \<open>tau_e\<close> stays \<open>INFINITY\<close>.
\<close>

theorem C3_tau_e_value_not_used:
  "map_sum id l_tau_e
     (type_I_migration_locals \<lparr>sim_G = 1\<rparr> scenario_force
        (scenario_planet [''tau_e'' \<mapsto> 1000]) scenario_star
        \<lparr>o_a = 1, o_e = 0, o_inc = 0\<rparr> 1 1 zero_vec) = Inr (Finite (800 / 39))
   \<and> type_I_migration_locals \<lparr>sim_G = 1\<rparr> \<lparr>force_ap = Map.empty\<rparr>
        (scenario_planet [''tau_e'' \<mapsto> 1000]) scenario_star
        \<lparr>o_a = 1, o_e = 0, o_inc = 0\<rparr> 1 1 zero_vec = Inl NullDereference
   \<and> map_sum id l_tau_e
       (type_I_migration_locals \<lparr>sim_G = 1\<rparr> scenario_force
          (scenario_planet Map.empty) scenario_star
          \<lparr>o_a = 1, o_e = 0, o_inc = 0\<rparr> 1 1 zero_vec) = Inr INFINITY"
  by (simp add: eval_defs model_defs pow_eval)

subsection \<open>The per-particle force: absent disc parameters\<close>

text \<open>
  Lines 187 and 190 dereference the disc parameters without a test for the null pointer,
  unlike \<open>tau_inc_ptr\<close> (line 192) and \<open>coordinates\<close> (line 219): the expression of
  line 187 fails exactly when one of its five parameters is absent, that of line 190
  exactly when one of its three is.
\<close>

lemma disc_paths_deref_unchecked:
  "isl (disc_invtau_a G h dedge beta alpha sd0 mp ms a0 r2 e0) =
      (h = None \<or> dedge = None \<or> beta = None \<or> alpha = None \<or> sd0 = None)
   \<and> isl (disc_tau_e G beta alpha sd0 mp ms a0 r2 e0) =
      (beta = None \<or> alpha = None \<or> sd0 = None)"
  by (cases h; cases dedge; cases beta; cases alpha; cases sd0)
     (simp_all add: disc_invtau_a_def disc_tau_e_def and_then_def deref_def)

text \<open>
  Both lines sit under the tests of lines 186 and 189. A particle with neither \<open>tau_a\<close>
  nor \<open>tau_e\<close> set reaches neither of them: whatever the force configuration is, the
  function returns, with \<open>invtau_a = 0\<close> and \<open>tau_e = INFINITY\<close>.
\<close>

lemma no_override_never_fails:
  assumes "rebx_get_param (p_ap p) ''tau_a'' = None"
    and "rebx_get_param (p_ap p) ''tau_e'' = None"
  shows "\<exists>l. type_I_migration_locals sim force p source o' ms r a_in = Inr l
           \<and> l_invtau_a l = 0 \<and> l_tau_e l = INFINITY"
  using assms
  by (simp add: type_I_migration_locals_def Let_def and_then_def)


subsection \<open>The per-particle force: the eccentricity and inclination term\<close>

lemma locals_no_override:
  assumes "rebx_get_param (p_ap p) ''tau_e'' = None"
    and "rebx_get_param (p_ap p) ''tau_inc'' = None"
    and "type_I_migration_locals sim force p source o' ms r a_in = Inr l"
  shows "l_tau_e l = INFINITY \<and> l_tau_inc l = INFINITY \<and> l_a l = a_in"
  using assms
  by (auto simp: type_I_migration_locals_def Let_def and_then_def ecc_inc_block_def
           split: if_splits sum.splits)

lemma result_no_override:
  assumes "rebx_get_param (p_ap (mem_p mem)) ''tau_e'' = None"
    and "rebx_get_param (p_ap (mem_p mem)) ''tau_inc'' = None"
  shows "fst (rebx_calculate_modify_orbits_with_type_I_migration mem o' ms r a_in)
           \<in> {Inl NullDereference, Inr a_in}"
proof (cases "type_I_migration_locals (mem_sim mem) (mem_force mem) (mem_p mem)
                (mem_source mem) o' ms r a_in")
  case (Inl e)
  then show ?thesis
    by (cases e) (simp add: rebx_calculate_modify_orbits_with_type_I_migration_def)
next
  case (Inr l)
  with locals_no_override[OF assms Inr] show ?thesis
    by (simp add: rebx_calculate_modify_orbits_with_type_I_migration_def)
qed

lemma block_applied:
  "ecc_inc_block te ti dx dy dz dvx dvy dvz r2 a \<noteq> a \<Longrightarrow>
     (\<exists>t. te = Finite t) \<or> (\<exists>t. ti = Finite t)"
  by (cases te; cases ti) (simp_all add: ecc_inc_block_def)

lemma block_not_applied: "ecc_inc_block INFINITY INFINITY dx dy dz dvx dvy dvz r2 a = a"
  by (simp add: ecc_inc_block_def)

text \<open>
  Claim C7. For a particle whose \<open>tau_e\<close> and \<open>tau_inc\<close> parameters are both absent,
  both timescales are \<open>INFINITY\<close>, no disc-derived eccentricity damping applies, and
  the eccentricity and inclination term contributes exactly the zero vector: the vector
  \<open>a\<close> the function returns is the one it had before the block. The block changes
  \<open>a\<close> only when at least one of \<open>tau_e\<close>, \<open>tau_inc\<close> is finite.
\<close>

theorem C7_no_ecc_inc_term:
  assumes "rebx_get_param (p_ap (mem_p mem)) ''tau_e'' = None"
    and "rebx_get_param (p_ap (mem_p mem)) ''tau_inc'' = None"
  shows "(type_I_migration_locals (mem_sim mem) (mem_force mem) (mem_p mem) (mem_source mem)
            o' ms r a_in = Inr l \<longrightarrow>
            l_tau_e l = INFINITY \<and> l_tau_inc l = INFINITY \<and> l_a l = a_in)
       \<and> fst (rebx_calculate_modify_orbits_with_type_I_migration mem o' ms r a_in)
            \<in> {Inl NullDereference, Inr a_in}
       \<and> ecc_inc_block INFINITY INFINITY dx dy dz dvx dvy dvz r2 a = a
       \<and> (ecc_inc_block te ti dx dy dz dvx dvy dvz r2 a \<noteq> a \<longrightarrow>
            (\<exists>t. te = Finite t) \<or> (\<exists>t. ti = Finite t))"
proof -
  have "l_tau_e l = INFINITY \<and> l_tau_inc l = INFINITY \<and> l_a l = a_in"
    if "type_I_migration_locals (mem_sim mem) (mem_force mem) (mem_p mem) (mem_source mem)
          o' ms r a_in = Inr l"
    using that by (rule locals_no_override[OF assms])
  moreover have "fst (rebx_calculate_modify_orbits_with_type_I_migration mem o' ms r a_in)
          \<in> {Inl NullDereference, Inr a_in}"
    by (rule result_no_override[OF assms])
  moreover have "ecc_inc_block INFINITY INFINITY dx dy dz dvx dvy dvz r2 a = a"
    by (rule block_not_applied)
  moreover have "(\<exists>t. te = Finite t) \<or> (\<exists>t. ti = Finite t)"
    if "ecc_inc_block te ti dx dy dz dvx dvy dvz r2 a \<noteq> a"
    using that by (rule block_applied)
  ultimately show ?thesis
    by blast
qed

theorem C7_no_ecc_inc_term_witness:
  "rebx_get_param (p_ap (mem_p (scenario_memory (force_ap scenario_force) [''tau_a'' \<mapsto> 1000])))
     ''tau_e'' = None
   \<and> rebx_get_param (p_ap (mem_p (scenario_memory (force_ap scenario_force) [''tau_a'' \<mapsto> 1000])))
     ''tau_inc'' = None
   \<and> fst (rebx_calculate_modify_orbits_with_type_I_migration
        (scenario_memory (force_ap scenario_force) [''tau_a'' \<mapsto> 1000])
        \<lparr>o_a = 1, o_e = 0, o_inc = 0\<rparr> 1 1 \<lparr>vec_x = 3, vec_y = 4, vec_z = 5\<rparr>)
       = Inr \<lparr>vec_x = 3, vec_y = 4, vec_z = 5\<rparr>
   \<and> ecc_inc_block (Finite 1) INFINITY 1 0 0 1 0 0 1 zero_vec \<noteq> zero_vec
   \<and> ((\<exists>t. Finite 1 = Finite t) \<or> (\<exists>t. INFINITY = Finite t))"
proof -
  let ?mem = "scenario_memory (force_ap scenario_force) [''tau_a'' \<mapsto> 1000]"
  have e: "rebx_get_param (p_ap (mem_p ?mem)) ''tau_e'' = None"
    and i: "rebx_get_param (p_ap (mem_p ?mem)) ''tau_inc'' = None"
    by (simp_all add: eval_defs)
  have r: "\<not> isl (fst (rebx_calculate_modify_orbits_with_type_I_migration ?mem
             \<lparr>o_a = 1, o_e = 0, o_inc = 0\<rparr> 1 1 \<lparr>vec_x = 3, vec_y = 4, vec_z = 5\<rparr>))"
    by (simp add: rebx_calculate_modify_orbits_with_type_I_migration_def eval_defs)
  have b: "ecc_inc_block (Finite 1) INFINITY 1 0 0 1 0 0 1 zero_vec \<noteq> zero_vec"
    by (simp add: ecc_inc_block_def zero_vec_def)
  let ?o = "\<lparr>o_a = 1, o_e = 0, o_inc = 0\<rparr>"
  let ?a = "\<lparr>vec_x = 3, vec_y = 4, vec_z = 5\<rparr>"
  have m: "fst (rebx_calculate_modify_orbits_with_type_I_migration ?mem ?o 1 1 ?a)
             \<in> {Inl NullDereference, Inr ?a}"
    and f: "ecc_inc_block (Finite 1) INFINITY 1 0 0 1 0 0 1 zero_vec \<noteq> zero_vec \<longrightarrow>
             (\<exists>t. Finite 1 = Finite t) \<or> (\<exists>t. INFINITY = Finite t)"
    using C7_no_ecc_inc_term [OF e i, of ?o 1 1 ?a _ 1 0 0 1 0 0 1 zero_vec "Finite 1" INFINITY]
    by blast+
  from m r have "fst (rebx_calculate_modify_orbits_with_type_I_migration ?mem ?o 1 1 ?a) = Inr ?a"
    by auto
  with e i b f show ?thesis
    by blast
qed

subsection \<open>The per-particle force: what the result depends on\<close>

text \<open>
  The vector the function returns is \<open>a\<close>, which it neither declares nor initialises,
  with the term of lines 206-212 added: two calls that differ only in what \<open>a\<close> held
  before return vectors that differ by as much. (The declared and zeroed vector is
  \<open>am\<close>, which is not used; the semimajor-axis term goes to \<open>aa\<close>, which is not
  added to the result.)
\<close>

lemma result_shifts_with_prior_a:
  assumes "fst (rebx_calculate_modify_orbits_with_type_I_migration mem o' ms r a1) = Inr v1"
    and "fst (rebx_calculate_modify_orbits_with_type_I_migration mem o' ms r a2) = Inr v2"
  shows "vec_x v1 - vec_x v2 = vec_x a1 - vec_x a2
       \<and> vec_y v1 - vec_y v2 = vec_y a1 - vec_y a2
       \<and> vec_z v1 - vec_z v2 = vec_z a1 - vec_z a2"
  using assms
  by (auto simp: rebx_calculate_modify_orbits_with_type_I_migration_def
        type_I_migration_locals_def Let_def and_then_def ecc_inc_block_def
        split: sum.splits if_splits)


end
